theory Spec2Isabelle
  imports Complex_Main
begin

section \<open>The values the proxy handles\<close>

text \<open>
  \<^verbatim>\<open>index.js\<close> reads lines from standard input, posts each one to the remote
  server and rewrites some of the answers. It looks at its messages only through
  \<^verbatim>\<open>JSON.parse\<close>, so a message is modelled by the value the parser returns.
  Text is a \<^typ>\<open>string\<close> holding the UTF-8 encoding, which is what the proxy
  reads from and writes to its streams.
\<close>

text \<open>A JavaScript number that \<^verbatim>\<open>JSON.parse\<close> can return: the value of a finite
  double, or an infinity (for a literal such as \<^verbatim>\<open>1e999\<close>). It never returns NaN.\<close>

datatype number = Number rat | PosInfinity | NegInfinity

datatype json =
    JNull
  | JBool bool
  | JNumber number
  | JString string
  | JArray "json list"
  | JObject "(string \<times> json) list"

text \<open>A JavaScript value of the program: \<open>None\<close> is \<^verbatim>\<open>undefined\<close>.\<close>

type_synonym jsval = "json option"

text \<open>
  The parts of the Node.js runtime the program calls and that are not code of the
  repository. \<open>json_parse\<close> is \<^verbatim>\<open>JSON.parse\<close>: \<open>Inl msg\<close> is a SyntaxError with that
  message, \<open>Inr v\<close> the parsed value, whose objects list their own properties once
  each. \<open>json_stringify\<close> is \<^verbatim>\<open>JSON.stringify\<close> on such a value. \<open>number_to_string\<close>
  is the string conversion of a number. \<open>null_read_message p\<close> is the message of the
  TypeError raised by reading property \<open>p\<close> of \<^verbatim>\<open>null\<close>, and \<open>not_primitive_message\<close>
  the message of the TypeError raised when an object has no string conversion.
  \<open>buffer_to_string\<close> is the string conversion of a \<^verbatim>\<open>Buffer\<close>: the bytes decoded as
  UTF-8, every part that is not valid UTF-8 becoming U+FFFD (the bytes EF BF BD of
  the text).
\<close>

record runtime =
  json_parse :: "string \<Rightarrow> string + json"
  json_stringify :: "json \<Rightarrow> string"
  number_to_string :: "number \<Rightarrow> string"
  null_read_message :: "string \<Rightarrow> string"
  not_primitive_message :: string
  buffer_to_string :: "string \<Rightarrow> string"

text \<open>The truth value of \<open>v\<close> in a condition (\<^verbatim>\<open>v ? a : b\<close>, \<^verbatim>\<open>v && w\<close>).\<close>

fun truthy :: "jsval \<Rightarrow> bool" where
  "truthy None = False"
| "truthy (Some JNull) = False"
| "truthy (Some (JBool b)) = b"
| "truthy (Some (JNumber n)) = (n \<noteq> Number 0)"
| "truthy (Some (JString s)) = (s \<noteq> [])"
| "truthy (Some (JArray vs)) = True"
| "truthy (Some (JObject kvs)) = True"

text \<open>
  \<^verbatim>\<open>v.p\<close> for a value \<open>v\<close> that is neither \<^verbatim>\<open>null\<close> nor \<^verbatim>\<open>undefined\<close>, and a
  property \<open>p\<close> among the four the program reads (\<^verbatim>\<open>method\<close>, \<^verbatim>\<open>id\<close>, \<^verbatim>\<open>error\<close>,
  \<^verbatim>\<open>code\<close>): no prototype defines these, so only an object's own property is found.
\<close>

fun get_property :: "json \<Rightarrow> string \<Rightarrow> jsval" where
  "get_property (JObject kvs) p = map_of kvs p"
| "get_property v p = None"

text \<open>
  The string conversion inside a template literal. An array is its elements joined
  by commas, with \<^verbatim>\<open>null\<close> as the empty string. An object is \<^verbatim>\<open>[object Object]\<close>,
  unless it has an own property \<^verbatim>\<open>toString\<close>: a parsed value is never a function, so
  that property hides \<^verbatim>\<open>Object.prototype.toString\<close>, \<^verbatim>\<open>valueOf\<close> returns the object
  itself, and the conversion throws a TypeError (\<open>Inl\<close> its message).
\<close>

fun to_string :: "runtime \<Rightarrow> json \<Rightarrow> string + string"
  and join :: "runtime \<Rightarrow> json list \<Rightarrow> string + string" where
  "to_string rt JNull = Inr ''null''"
| "to_string rt (JBool b) = Inr (if b then ''true'' else ''false'')"
| "to_string rt (JNumber n) = Inr (number_to_string rt n)"
| "to_string rt (JString s) = Inr s"
| "to_string rt (JArray vs) = join rt vs"
| "to_string rt (JObject kvs) =
     (if ''toString'' \<in> set (map fst kvs) then Inl (not_primitive_message rt)
      else Inr ''[object Object]'')"
| "join rt [] = Inr []"
| "join rt (v # vs) =
     (case (if v = JNull then Inr [] else to_string rt v) of
        Inl msg \<Rightarrow> Inl msg
      | Inr s \<Rightarrow>
          (if vs = [] then Inr s
           else (case join rt vs of
                   Inl msg \<Rightarrow> Inl msg
                 | Inr t \<Rightarrow> Inr (s @ '','' @ t))))"

definition interpolate :: "runtime \<Rightarrow> jsval \<Rightarrow> string + string" where
  "interpolate rt v = (case v of None \<Rightarrow> Inr ''undefined'' | Some j \<Rightarrow> to_string rt j)"

section \<open>Blank lines\<close>

text \<open>
  \<^verbatim>\<open>line.trim()\<close> removes white space and line terminators from both ends. In UTF-8
  these are six one-byte characters, U+00A0 (two bytes) and, in three bytes, U+1680,
  U+2000 to U+200A, U+2028, U+2029, U+202F, U+205F, U+3000 and U+FEFF.
\<close>

definition ws1 :: "char \<Rightarrow> bool" where
  "ws1 a = (a \<in> set [CHR 0x09, CHR 0x0A, CHR 0x0B, CHR 0x0C, CHR 0x0D, CHR 0x20])"

definition ws2 :: "char \<Rightarrow> char \<Rightarrow> bool" where
  "ws2 a b = (a = CHR 0xC2 \<and> b = CHR 0xA0)"

definition ws3 :: "char \<Rightarrow> char \<Rightarrow> char \<Rightarrow> bool" where
  "ws3 a b c =
     ((a = CHR 0xE1 \<and> b = CHR 0x9A \<and> c = CHR 0x80) \<or>
      (a = CHR 0xE2 \<and> b = CHR 0x80 \<and>
         c \<in> set [CHR 0x80, CHR 0x81, CHR 0x82, CHR 0x83, CHR 0x84, CHR 0x85, CHR 0x86,
                   CHR 0x87, CHR 0x88, CHR 0x89, CHR 0x8A, CHR 0xA8, CHR 0xA9, CHR 0xAF]) \<or>
      (a = CHR 0xE2 \<and> b = CHR 0x81 \<and> c = CHR 0x9F) \<or>
      (a = CHR 0xE3 \<and> b = CHR 0x80 \<and> c = CHR 0x80) \<or>
      (a = CHR 0xEF \<and> b = CHR 0xBB \<and> c = CHR 0xBF))"

text \<open>The number of bytes of the white-space character a text starts with (0: none).\<close>

fun ws_at_start :: "string \<Rightarrow> nat" where
  "ws_at_start (a # b # c # s) =
     (if ws1 a then 1 else if ws2 a b then 2 else if ws3 a b c then 3 else 0)"
| "ws_at_start [a, b] = (if ws1 a then 1 else if ws2 a b then 2 else 0)"
| "ws_at_start [a] = (if ws1 a then 1 else 0)"
| "ws_at_start [] = 0"

text \<open>The same for the character a text ends with, read from the reversed text.\<close>

fun ws_at_end :: "string \<Rightarrow> nat" where
  "ws_at_end (c # b # a # s) =
     (if ws1 c then 1 else if ws2 b c then 2 else if ws3 a b c then 3 else 0)"
| "ws_at_end [c, b] = (if ws1 c then 1 else if ws2 b c then 2 else 0)"
| "ws_at_end [c] = (if ws1 c then 1 else 0)"
| "ws_at_end [] = 0"

function trimStart :: "string \<Rightarrow> string" where
  "trimStart s = (if ws_at_start s = 0 then s else trimStart (drop (ws_at_start s) s))"
  by pat_completeness auto
termination
proof (relation "measure length")
  show "wf (measure length)" by simp
next
  fix s :: string
  assume "ws_at_start s \<noteq> 0"
  moreover have "ws_at_start s \<le> length s"
    by (induction s rule: ws_at_start.induct) auto
  ultimately show "(drop (ws_at_start s) s, s) \<in> measure length" by simp
qed

function trimEnd_rev :: "string \<Rightarrow> string" where
  "trimEnd_rev r = (if ws_at_end r = 0 then r else trimEnd_rev (drop (ws_at_end r) r))"
  by pat_completeness auto
termination
proof (relation "measure length")
  show "wf (measure length)" by simp
next
  fix r :: string
  assume "ws_at_end r \<noteq> 0"
  moreover have "ws_at_end r \<le> length r"
    by (induction r rule: ws_at_end.induct) auto
  ultimately show "(drop (ws_at_end r) r, r) \<in> measure length" by simp
qed

definition trimEnd :: "string \<Rightarrow> string" where
  "trimEnd s = rev (trimEnd_rev (rev s))"

definition trim :: "string \<Rightarrow> string" where
  "trim s = trimEnd (trimStart s)"

section \<open>The HTTP request of a line\<close>

text \<open>
  The parts of the target URL the program uses, as \<^verbatim>\<open>new URL(serverUrl)\<close> gives them:
  \<open>url_port\<close> is empty when the URL names no port.
\<close>

record url =
  url_protocol :: string
  url_hostname :: string
  url_port :: string
  url_pathname :: string
  url_search :: string

definition isHttps :: "url \<Rightarrow> bool" where
  "isHttps u = (url_protocol u = ''https:'')"

text \<open>\<^verbatim>\<open>url.port || (isHttps ? 443 : 80)\<close>: the URL's text, or a default number.\<close>

datatype port = PortText string | PortNumber nat

text \<open>\<^verbatim>\<open>Buffer.byteLength(line)\<close>: the length of the UTF-8 encoding.\<close>

definition byteLength :: "string \<Rightarrow> nat" where
  "byteLength s = length s"

text \<open>The \<open>options\<close> of the request, with the body that \<^verbatim>\<open>req.write(line)\<close> sends.\<close>

record http_request =
  hostname :: string
  port :: port
  path :: string
  http_method :: string
  content_type :: string
  content_length :: nat
  body :: string

definition request_for :: "url \<Rightarrow> string \<Rightarrow> http_request" where
  "request_for u line =
     \<lparr> hostname = url_hostname u,
       port = (if url_port u \<noteq> [] then PortText (url_port u)
               else PortNumber (if isHttps u then 443 else 80)),
       path = url_pathname u @ url_search u,
       http_method = ''POST'',
       content_type = ''application/json'',
       content_length = byteLength line,
       body = line \<rparr>"

section \<open>What a handler does\<close>

text \<open>
  The observable actions of the program, in order: a request sent to the remote
  server, text written to standard output, text written to standard error (the
  operator's stream), and \<^verbatim>\<open>process.exit\<close>.
\<close>

datatype effect =
    Request http_request
  | Stdout string
  | Stderr string
  | Exit int

text \<open>\<^verbatim>\<open>console.log\<close> and \<^verbatim>\<open>console.error\<close> write their argument and a line feed.\<close>

definition console_log :: "string \<Rightarrow> effect" where
  "console_log s = Stdout (s @ [CHR 0x0A])"

definition console_error :: "string \<Rightarrow> effect" where
  "console_error s = Stderr (s @ [CHR 0x0A])"

definition stderr_write :: "string \<Rightarrow> effect" where
  "stderr_write s = Stderr s"

text \<open>The texts written to standard output, one for each write.\<close>

fun stdout_of :: "effect list \<Rightarrow> string list" where
  "stdout_of [] = []"
| "stdout_of (Stdout s # es) = s # stdout_of es"
| "stdout_of (e # es) = stdout_of es"

text \<open>The requests sent.\<close>

fun requests_of :: "effect list \<Rightarrow> http_request list" where
  "requests_of [] = []"
| "requests_of (Request r # es) = r # requests_of es"
| "requests_of (e # es) = requests_of es"

section \<open>The line handler's parse\<close>

text \<open>
  \<^verbatim>\<open>let request; try { request = JSON.parse(line); } catch (e) { }\<close>: the variable
  stays \<^verbatim>\<open>undefined\<close> when the line is not JSON.
\<close>

definition parse_request :: "runtime \<Rightarrow> string \<Rightarrow> jsval" where
  "parse_request rt line = (case json_parse rt line of Inl msg \<Rightarrow> None | Inr v \<Rightarrow> Some v)"

section \<open>The response handler\<close>

text \<open>\<^verbatim>\<open>const method = request ? request.method : 'unknown'\<close>\<close>

definition method_of :: "jsval \<Rightarrow> jsval" where
  "method_of request =
     (case request of
        None \<Rightarrow> Some (JString ''unknown'')
      | Some r \<Rightarrow> if truthy (Some r) then get_property r ''method'' else Some (JString ''unknown''))"

text \<open>\<^verbatim>\<open>const requestId = request ? request.id : undefined\<close>\<close>

definition requestId_of :: "jsval \<Rightarrow> jsval" where
  "requestId_of request =
     (case request of
        None \<Rightarrow> None
      | Some r \<Rightarrow> if truthy (Some r) then get_property r ''id'' else None)"

text \<open>
  \<^verbatim>\<open>response.error && response.error.code === -32601\<close> for a response that is not
  \<^verbatim>\<open>null\<close>. The second read is of a truthy value, so it cannot throw.
\<close>

definition method_not_found :: "json \<Rightarrow> bool" where
  "method_not_found response =
     (case get_property response ''error'' of
        None \<Rightarrow> False
      | Some e \<Rightarrow> truthy (Some e) \<and> get_property e ''code'' = Some (JNumber (Number (- 32601))))"

text \<open>
  The object literal \<^verbatim>\<open>{ jsonrpc: '2.0', id: requestId, result: { <list>: [] } }\<close> as
  \<^verbatim>\<open>JSON.stringify\<close> sees it: a property whose value is \<^verbatim>\<open>undefined\<close> is left out.
\<close>

definition empty_result :: "jsval \<Rightarrow> string \<Rightarrow> json" where
  "empty_result requestId list_name =
     JObject ([(''jsonrpc'', JString ''2.0'')] @
              (case requestId of None \<Rightarrow> [] | Some i \<Rightarrow> [(''id'', i)]) @
              [(''result'', JObject [(list_name, JArray [])])])"

text \<open>
  How the \<^verbatim>\<open>try\<close> block of the \<^verbatim>\<open>end\<close> handler finishes: at the \<^verbatim>\<open>return\<close> of
  the notification branch, having written a note to standard error; at a \<^verbatim>\<open>return\<close>
  of the conversion branch, having logged the converted response and written a note;
  by reaching its end; or by an exception with a message.
\<close>

datatype completion =
    Dropped string
  | Converted string string
  | Fallthrough
  | Throw string

text \<open>
  The \<^verbatim>\<open>try\<close> block. \<^verbatim>\<open>JSON.parse(data)\<close> throws on text that is not JSON;
  \<^verbatim>\<open>response.error\<close> throws when the response is \<^verbatim>\<open>null\<close>; the template literal of
  the first branch throws when \<^verbatim>\<open>method\<close> has no string conversion. Each of them
  comes before any write of its path.
\<close>

definition try_block :: "runtime \<Rightarrow> jsval \<Rightarrow> string \<Rightarrow> completion" where
  "try_block rt request data =
     (case json_parse rt data of
        Inl msg \<Rightarrow> Throw msg
      | Inr response \<Rightarrow>
          (let method = method_of request;
               requestId = requestId_of request
           in if response = JNull then Throw (null_read_message rt ''error'')
              else if method_not_found response \<and> requestId = None then
                (case interpolate rt method of
                   Inl msg \<Rightarrow> Throw msg
                 | Inr m \<Rightarrow>
                     Dropped (''[PROXY] Dropped -32601 error for notification: '' @ m @
                              [CHR 0x0A]))
              else if method_not_found response \<and> truthy request then
                (if method = Some (JString ''prompts/list'') then
                   Converted (json_stringify rt (empty_result requestId ''prompts''))
                     (''[PROXY] Converted prompts/list error to empty result'' @ [CHR 0x0A])
                 else if method = Some (JString ''resources/list'') then
                   Converted (json_stringify rt (empty_result requestId ''resources''))
                     (''[PROXY] Converted resources/list error to empty result'' @ [CHR 0x0A])
                 else Fallthrough)
              else Fallthrough))"

text \<open>
  The \<^verbatim>\<open>end\<close> handler of a response: \<^verbatim>\<open>request\<close> is the line handler's variable,
  \<^verbatim>\<open>data\<close> the text the \<^verbatim>\<open>data\<close> handler has gathered. After the \<^verbatim>\<open>catch\<close>, and
  when the \<^verbatim>\<open>try\<close> block reaches its end, \<^verbatim>\<open>console.log(data)\<close> runs.
\<close>

definition on_end :: "runtime \<Rightarrow> jsval \<Rightarrow> string \<Rightarrow> effect list" where
  "on_end rt request data =
     (case try_block rt request data of
        Dropped note \<Rightarrow> [stderr_write note]
      | Converted converted note \<Rightarrow> [console_log converted, stderr_write note]
      | Fallthrough \<Rightarrow> [console_log data]
      | Throw msg \<Rightarrow>
          [stderr_write (''[PROXY] Parse error: '' @ msg @ [CHR 0x0A]), console_log data])"

text \<open>\<^verbatim>\<open>req.on('error', ...)\<close>\<close>

definition on_error :: "string \<Rightarrow> effect list" where
  "on_error message = [console_error (''HTTP Error: '' @ message)]"

section \<open>The process\<close>

text \<open>
  Node.js runs one handler at a time. A request in flight keeps the variables its
  handlers close over: \<^verbatim>\<open>request\<close> of the line handler and \<^verbatim>\<open>data\<close> of the
  response callback. Requests are numbered in the order they are sent.
\<close>

record pending =
  pending_request :: jsval
  pending_data :: string

record process =
  requests :: "pending list"
  running :: bool

text \<open>
  What the event loop delivers: a line of standard input; for the request with a
  given number, a chunk of the response (the bytes of the \<^verbatim>\<open>Buffer\<close>), the end of
  the response, or a transport error with its message; a signal.
\<close>

datatype event =
    Line string
  | ResData nat string
  | ResEnd nat
  | ReqError nat string
  | Sigterm
  | Sigint

text \<open>
  The line handler: \<open>None\<close> is the \<^verbatim>\<open>return\<close> on a blank line; otherwise the new
  request's variables and the request sent by \<^verbatim>\<open>req.write(line); req.end()\<close>.
\<close>

definition on_line :: "runtime \<Rightarrow> url \<Rightarrow> string \<Rightarrow> (pending \<times> effect list) option" where
  "on_line rt u line =
     (if trim line = [] then None
      else Some (\<lparr> pending_request = parse_request rt line, pending_data = [] \<rparr>,
                 [Request (request_for u line)]))"

text \<open>
  \<^verbatim>\<open>res.on('data', (chunk) => { data += chunk; })\<close>: no encoding is set on the
  response, so \<^verbatim>\<open>chunk\<close> is a \<^verbatim>\<open>Buffer\<close> and \<^verbatim>\<open>+=\<close> appends its string conversion,
  each chunk decoded on its own.
\<close>

definition on_data :: "runtime \<Rightarrow> pending \<Rightarrow> string \<Rightarrow> pending" where
  "on_data rt r chunk = r\<lparr> pending_data := pending_data r @ buffer_to_string rt chunk \<rparr>"

text \<open>
  One event: the handler registered for it runs on the variables of its request. An
  event for a request that was never sent has no handler. The signal handlers call
  \<^verbatim>\<open>process.exit(0)\<close>.
\<close>

fun step :: "runtime \<Rightarrow> url \<Rightarrow> process \<Rightarrow> event \<Rightarrow> process \<times> effect list" where
  "step rt u p (Line line) =
     (case on_line rt u line of
        None \<Rightarrow> (p, [])
      | Some (r, effects) \<Rightarrow> (p\<lparr> requests := requests p @ [r] \<rparr>, effects))"
| "step rt u p (ResData i chunk) =
     (if i < length (requests p)
      then (p\<lparr> requests := (requests p)[i := on_data rt (requests p ! i) chunk] \<rparr>, [])
      else (p, []))"
| "step rt u p (ResEnd i) =
     (if i < length (requests p)
      then (p, on_end rt (pending_request (requests p ! i)) (pending_data (requests p ! i)))
      else (p, []))"
| "step rt u p (ReqError i message) =
     (if i < length (requests p) then (p, on_error message) else (p, []))"
| "step rt u p Sigterm = (p\<lparr> running := False \<rparr>, [Exit 0])"
| "step rt u p Sigint = (p\<lparr> running := False \<rparr>, [Exit 0])"

text \<open>
  A run of the process: each event it handles with the effects of its handler. After
  \<^verbatim>\<open>process.exit\<close> nothing is handled.
\<close>

fun run :: "runtime \<Rightarrow> url \<Rightarrow> process \<Rightarrow> event list \<Rightarrow> (event \<times> effect list) list" where
  "run rt u p [] = []"
| "run rt u p (e # es) =
     (if running p
      then (e, snd (step rt u p e)) # run rt u (fst (step rt u p e)) es
      else [])"

text \<open>The state of the process after a run.\<close>

fun after :: "runtime \<Rightarrow> url \<Rightarrow> process \<Rightarrow> event list \<Rightarrow> process" where
  "after rt u p [] = p"
| "after rt u p (e # es) = (if running p then after rt u (fst (step rt u p e)) es else p)"

definition effects_of :: "(event \<times> effect list) list \<Rightarrow> effect list" where
  "effects_of trace = concat (map snd trace)"

text \<open>
  The state once \<^verbatim>\<open>index.js\<close> has checked its argument, registered its handlers and
  written its banner to standard error: nothing in flight.
\<close>

definition started :: process where
  "started = \<lparr> requests = [], running = True \<rparr>"

text \<open>The lines among the events, and the events of the request with a given number.\<close>

fun lines_of :: "event list \<Rightarrow> string list" where
  "lines_of [] = []"
| "lines_of (Line line # es) = line # lines_of es"
| "lines_of (e # es) = lines_of es"

fun concerns :: "nat \<Rightarrow> event \<Rightarrow> bool" where
  "concerns i (ResData j chunk) = (i = j)"
| "concerns i (ResEnd j) = (i = j)"
| "concerns i (ReqError j message) = (i = j)"
| "concerns i e = False"

text \<open>The chunks of the response to request \<open>i\<close> among the events, in order.\<close>

fun chunks_for :: "nat \<Rightarrow> event list \<Rightarrow> string list" where
  "chunks_for i [] = []"
| "chunks_for i (ResData j chunk # es) =
     (if i = j then chunk # chunks_for i es else chunks_for i es)"
| "chunks_for i (e # es) = chunks_for i es"

text \<open>What the handlers of request \<open>i\<close> wrote to standard output during a run.\<close>

fun stdout_for :: "nat \<Rightarrow> (event \<times> effect list) list \<Rightarrow> string list" where
  "stdout_for i [] = []"
| "stdout_for i ((e, effects) # trace) =
     (if concerns i e then stdout_of effects @ stdout_for i trace else stdout_for i trace)"

text \<open>
  Standard output is read as newline-delimited text: the lines that some writes put
  on it are as many as the line feeds they hold.
\<close>

definition lines_in :: "string list \<Rightarrow> nat" where
  "lines_in texts = count_list (concat texts) (CHR 0x0A)"

section \<open>The decision as the specification words it\<close>

text \<open>
  The specification's decision algorithm, in its own order: pass through when the
  response is not JSON; drop when the response has an \<^verbatim>\<open>error\<close> with \<^verbatim>\<open>code\<close> -32601 and
  the request has no \<^verbatim>\<open>id\<close>; else substitute the empty result carrying the request's
  \<^verbatim>\<open>id\<close> when the response has that error and the method is exactly \<^verbatim>\<open>prompts/list\<close>
  or \<^verbatim>\<open>resources/list\<close>; else pass through. It is compared with the \<^verbatim>\<open>end\<close> handler
  below.
\<close>

datatype decision = Drop | Substitute string | PassThrough

definition spec_decision :: "runtime \<Rightarrow> jsval \<Rightarrow> string \<Rightarrow> decision" where
  "spec_decision rt request data =
     (case json_parse rt data of
        Inl msg \<Rightarrow> PassThrough
      | Inr response \<Rightarrow>
          if method_not_found response \<and> requestId_of request = None then Drop
          else if method_not_found response \<and>
                  method_of request = Some (JString ''prompts/list'') then
            Substitute (json_stringify rt (empty_result (requestId_of request) ''prompts''))
          else if method_not_found response \<and>
                  method_of request = Some (JString ''resources/list'') then
            Substitute (json_stringify rt (empty_result (requestId_of request) ''resources''))
          else PassThrough)"

section \<open>Sample messages\<close>

text \<open>
  Concrete messages on which the handlers are evaluated: three calls, a call whose
  \<^verbatim>\<open>id\<close> is \<^verbatim>\<open>null\<close>, a notification, a message without a method, a notification whose
  method is an object, the remote server's method-not-found error and a result.
\<close>

definition prompts_call :: string where
  "prompts_call = ''{\"jsonrpc\":\"2.0\",\"id\":7,\"method\":\"prompts/list\"}''"

definition resources_call :: string where
  "resources_call = ''{\"jsonrpc\":\"2.0\",\"id\":8,\"method\":\"resources/list\"}''"

definition tools_call :: string where
  "tools_call = ''{\"jsonrpc\":\"2.0\",\"id\":3,\"method\":\"tools/call\"}''"

definition null_id_call :: string where
  "null_id_call = ''{\"jsonrpc\":\"2.0\",\"id\":null,\"method\":\"prompts/list\"}''"

definition initialized :: string where
  "initialized = ''{\"jsonrpc\":\"2.0\",\"method\":\"notifications/initialized\"}''"

definition no_method :: string where
  "no_method = ''{\"jsonrpc\":\"2.0\"}''"

definition odd_method :: string where
  "odd_method = ''{\"jsonrpc\":\"2.0\",\"method\":{\"toString\":0}}''"

definition not_found :: string where
  "not_found = ''{\"jsonrpc\":\"2.0\",\"id\":null,\"error\":{\"code\":-32601,\"message\":\"Method not found\"}}''"

definition tools_result :: string where
  "tools_result = ''{\"jsonrpc\":\"2.0\",\"id\":3,\"result\":{\"tools\":[]}}''"

text \<open>
  A result whose text holds the two-byte character U+00E9, and the same response
  received in two chunks that split the character; \<open>damaged_result\<close> is what the
  two chunks, each decoded on its own, add up to.
\<close>

definition accented_result :: string where
  "accented_result =
     ''{\"jsonrpc\":\"2.0\",\"id\":3,\"result\":\"'' @ [CHR 0xC3, CHR 0xA9] @ ''\"}''"

definition split_head :: string where
  "split_head = ''{\"jsonrpc\":\"2.0\",\"id\":3,\"result\":\"'' @ [CHR 0xC3]"

definition split_tail :: string where
  "split_tail = [CHR 0xA9] @ ''\"}''"

definition damaged_result :: string where
  "damaged_result =
     ''{\"jsonrpc\":\"2.0\",\"id\":3,\"result\":\"'' @
     [CHR 0xEF, CHR 0xBF, CHR 0xBD, CHR 0xEF, CHR 0xBF, CHR 0xBD] @ ''\"}''"

text \<open>A result printed on three lines, and an error page of a gateway on three lines.\<close>

definition pretty_result :: string where
  "pretty_result =
     ''{'' @ [CHR 0x0A] @ ''  \"jsonrpc\":\"2.0\",\"id\":3,\"result\":{\"tools\":[]}'' @ [CHR 0x0A] @ ''}''"

definition error_page :: string where
  "error_page =
     ''<html>'' @ [CHR 0x0A] @ ''<body>502 Bad Gateway</body>'' @ [CHR 0x0A] @ ''</html>''"

definition parsed :: "(string \<times> json) list" where
  "parsed =
    [(prompts_call, JObject [(''jsonrpc'', JString ''2.0''), (''id'', JNumber (Number 7)),
        (''method'', JString ''prompts/list'')]),
     (resources_call, JObject [(''jsonrpc'', JString ''2.0''), (''id'', JNumber (Number 8)),
        (''method'', JString ''resources/list'')]),
     (tools_call, JObject [(''jsonrpc'', JString ''2.0''), (''id'', JNumber (Number 3)),
        (''method'', JString ''tools/call'')]),
     (null_id_call, JObject [(''jsonrpc'', JString ''2.0''), (''id'', JNull),
        (''method'', JString ''prompts/list'')]),
     (initialized, JObject [(''jsonrpc'', JString ''2.0''),
        (''method'', JString ''notifications/initialized'')]),
     (no_method, JObject [(''jsonrpc'', JString ''2.0'')]),
     (odd_method, JObject [(''jsonrpc'', JString ''2.0''),
        (''method'', JObject [(''toString'', JNumber (Number 0))])]),
     (not_found, JObject [(''jsonrpc'', JString ''2.0''), (''id'', JNull),
        (''error'', JObject [(''code'', JNumber (Number (- 32601))),
                             (''message'', JString ''Method not found'')])]),
     (tools_result, JObject [(''jsonrpc'', JString ''2.0''), (''id'', JNumber (Number 3)),
        (''result'', JObject [(''tools'', JArray [])])]),
     (pretty_result, JObject [(''jsonrpc'', JString ''2.0''), (''id'', JNumber (Number 3)),
        (''result'', JObject [(''tools'', JArray [])])]),
     (accented_result, JObject [(''jsonrpc'', JString ''2.0''), (''id'', JNumber (Number 3)),
        (''result'', JString [CHR 0xC3, CHR 0xA9])]),
     (damaged_result, JObject [(''jsonrpc'', JString ''2.0''), (''id'', JNumber (Number 3)),
        (''result'', JString [CHR 0xEF, CHR 0xBF, CHR 0xBD, CHR 0xEF, CHR 0xBF, CHR 0xBD])])]"

definition stringified :: "(json \<times> string) list" where
  "stringified =
    [(JObject [(''jsonrpc'', JString ''2.0''), (''id'', JNumber (Number 7)),
        (''result'', JObject [(''prompts'', JArray [])])],
      ''{\"jsonrpc\":\"2.0\",\"id\":7,\"result\":{\"prompts\":[]}}''),
     (JObject [(''jsonrpc'', JString ''2.0''), (''id'', JNumber (Number 8)),
        (''result'', JObject [(''resources'', JArray [])])],
      ''{\"jsonrpc\":\"2.0\",\"id\":8,\"result\":{\"resources\":[]}}''),
     (JObject [(''jsonrpc'', JString ''2.0''), (''id'', JNull),
        (''result'', JObject [(''prompts'', JArray [])])],
      ''{\"jsonrpc\":\"2.0\",\"id\":null,\"result\":{\"prompts\":[]}}'')]"

text \<open>
  A runtime for the samples. It parses the sample texts as Node.js does and rejects
  every other text with a SyntaxError; it serialises the three empty results the
  samples lead to; its messages for the two TypeErrors are those of Node.js. No sample
  converts a number to a string. It decodes the two chunks of the split response as
  Node.js does, the lone first byte of the character and the lone second byte each
  becoming U+FFFD; the other sample chunks are valid UTF-8 and decode to themselves.
\<close>

definition node :: runtime where
  "node =
     \<lparr> json_parse = (\<lambda>s. case map_of parsed s of
                           None \<Rightarrow> Inl ''Unexpected token''
                         | Some v \<Rightarrow> Inr v),
       json_stringify = (\<lambda>v. case map_of stringified v of None \<Rightarrow> [] | Some s \<Rightarrow> s),
       number_to_string = (\<lambda>n. []),
       null_read_message = (\<lambda>p. ''Cannot read properties of null (reading '' @ [CHR 0x27] @ p @ [CHR 0x27] @ '')''),
       not_primitive_message = ''Cannot convert object to primitive value'',
       buffer_to_string = (\<lambda>chunk.
         if chunk = split_head then
           ''{\"jsonrpc\":\"2.0\",\"id\":3,\"result\":\"'' @ [CHR 0xEF, CHR 0xBF, CHR 0xBD]
         else if chunk = split_tail then [CHR 0xEF, CHR 0xBF, CHR 0xBD] @ ''\"}''
         else chunk) \<rparr>"

text \<open>A target URL.\<close>

definition server :: url where
  "server = \<lparr> url_protocol = ''https:'', url_hostname = ''example.com'', url_port = [],
              url_pathname = ''/mcp'', url_search = [] \<rparr>"

section \<open>The response handler, case by case\<close>

lemma stdout_of_writes [simp]:
  "stdout_of (console_log s # es) = (s @ [CHR 0x0A]) # stdout_of es"
  "stdout_of (stderr_write s # es) = stdout_of es"
  "stdout_of (console_error s # es) = stdout_of es"
  by (simp_all add: console_log_def stderr_write_def console_error_def)

lemma on_end_not_json:
  "json_parse rt data = Inl msg \<Longrightarrow>
   on_end rt request data =
     [stderr_write (''[PROXY] Parse error: '' @ msg @ [CHR 0x0A]), console_log data]"
  by (simp add: on_end_def try_block_def)

lemma on_end_null:
  "json_parse rt data = Inr JNull \<Longrightarrow>
   on_end rt request data =
     [stderr_write (''[PROXY] Parse error: '' @ null_read_message rt ''error'' @ [CHR 0x0A]),
      console_log data]"
  by (simp add: on_end_def try_block_def Let_def)

lemma method_not_found_null [simp]: "\<not> method_not_found JNull"
  by (simp add: method_not_found_def)

lemma on_end_other_response:
  "json_parse rt data = Inr response \<Longrightarrow> response \<noteq> JNull \<Longrightarrow> \<not> method_not_found response \<Longrightarrow>
   on_end rt request data = [console_log data]"
  by (simp add: on_end_def try_block_def Let_def)

lemma on_end_drop:
  "json_parse rt data = Inr response \<Longrightarrow> method_not_found response \<Longrightarrow>
   requestId_of request = None \<Longrightarrow> interpolate rt (method_of request) = Inr m \<Longrightarrow>
   on_end rt request data =
     [stderr_write (''[PROXY] Dropped -32601 error for notification: '' @ m @ [CHR 0x0A])]"
  by (auto simp add: on_end_def try_block_def Let_def)

lemma on_end_drop_throws:
  "json_parse rt data = Inr response \<Longrightarrow> method_not_found response \<Longrightarrow>
   requestId_of request = None \<Longrightarrow> interpolate rt (method_of request) = Inl msg \<Longrightarrow>
   on_end rt request data =
     [stderr_write (''[PROXY] Parse error: '' @ msg @ [CHR 0x0A]), console_log data]"
  by (auto simp add: on_end_def try_block_def Let_def)

lemma requestId_truthy: "requestId_of request = Some i \<Longrightarrow> truthy request"
  by (auto simp add: requestId_of_def split: option.splits if_splits)

lemma on_end_convert:
  "json_parse rt data = Inr response \<Longrightarrow> method_not_found response \<Longrightarrow>
   requestId_of request = Some i \<Longrightarrow> method_of request = Some (JString m) \<Longrightarrow>
   on_end rt request data =
     (if m = ''prompts/list'' then
        [console_log (json_stringify rt (empty_result (Some i) ''prompts'')),
         stderr_write (''[PROXY] Converted prompts/list error to empty result'' @ [CHR 0x0A])]
      else if m = ''resources/list'' then
        [console_log (json_stringify rt (empty_result (Some i) ''resources'')),
         stderr_write (''[PROXY] Converted resources/list error to empty result'' @ [CHR 0x0A])]
      else [console_log data])"
  by (auto simp add: on_end_def try_block_def Let_def dest: requestId_truthy)

lemma on_end_keep:
  "json_parse rt data = Inr response \<Longrightarrow> method_not_found response \<Longrightarrow>
   requestId_of request = Some i \<Longrightarrow> (\<And>m. method_of request \<noteq> Some (JString m)) \<Longrightarrow>
   on_end rt request data = [console_log data]"
  by (auto simp add: on_end_def try_block_def Let_def)


section \<open>Runs of the process\<close>

lemma requests_of_append: "requests_of (xs @ ys) = requests_of xs @ requests_of ys"
  by (induction xs rule: requests_of.induct) simp_all

lemma requests_of_writes [simp]:
  "requests_of (console_log s # es) = requests_of es"
  "requests_of (stderr_write s # es) = requests_of es"
  "requests_of (console_error s # es) = requests_of es"
  by (simp_all add: console_log_def stderr_write_def console_error_def)

lemma requests_of_on_end: "requests_of (on_end rt request data) = []"
  by (simp add: on_end_def try_block_def Let_def split: sum.splits)

lemma requests_of_step:
  "requests_of (snd (step rt u p e)) =
     (case e of Line line \<Rightarrow> if trim line = [] then [] else [request_for u line] | _ \<Rightarrow> [])"
  by (cases e) (simp_all add: on_line_def requests_of_on_end on_error_def)

lemma step_keeps_running:
  "e \<noteq> Sigterm \<Longrightarrow> e \<noteq> Sigint \<Longrightarrow> running (fst (step rt u p e)) = running p"
  by (cases e) (simp_all add: on_line_def)

lemma requests_of_run:
  "running p \<Longrightarrow> Sigterm \<notin> set es \<Longrightarrow> Sigint \<notin> set es \<Longrightarrow>
   requests_of (effects_of (run rt u p es)) =
     map (request_for u) (filter (\<lambda>line. trim line \<noteq> []) (lines_of es))"
proof (induction es arbitrary: p)
  case Nil
  then show ?case by (simp add: effects_of_def)
next
  case (Cons e es)
  have "running (fst (step rt u p e))"
    using Cons.prems step_keeps_running [of e rt u p] by auto
  then have rest: "requests_of (effects_of (run rt u (fst (step rt u p e)) es)) =
      map (request_for u) (filter (\<lambda>line. trim line \<noteq> []) (lines_of es))"
    using Cons.IH Cons.prems by simp
  have "requests_of (effects_of (run rt u p (e # es))) =
      requests_of (snd (step rt u p e)) @
      requests_of (effects_of (run rt u (fst (step rt u p e)) es))"
    using Cons.prems(1) by (simp add: effects_of_def requests_of_append)
  then show ?case
    unfolding rest requests_of_step by (cases e) simp_all
qed

lemma stdout_on_end_le: "length (stdout_of (on_end rt request data)) \<le> 1"
  by (simp add: on_end_def try_block_def Let_def split: sum.splits)

lemma stdout_step_le: "length (stdout_of (snd (step rt u p e))) \<le> 1"
  by (cases e) (simp_all add: on_line_def stdout_on_end_le [simplified] on_error_def)

lemma stdout_step_not_end:
  "(\<And>i. e \<noteq> ResEnd i) \<Longrightarrow> stdout_of (snd (step rt u p e)) = []"
  by (cases e) (auto simp add: on_line_def on_error_def)

lemma stdout_for_no_end:
  "ResEnd i \<notin> set es \<Longrightarrow> stdout_for i (run rt u p es) = []"
proof (induction es arbitrary: p)
  case Nil
  then show ?case by simp
next
  case (Cons e es)
  then have "stdout_for i (run rt u (fst (step rt u p e)) es) = []" by simp
  moreover have "concerns i e \<Longrightarrow> stdout_of (snd (step rt u p e)) = []"
    using Cons.prems by (cases e) (simp_all add: on_error_def)
  ultimately show ?case by simp
qed

lemma stdout_for_one_end:
  "count_list es (ResEnd i) \<le> 1 \<Longrightarrow> length (stdout_for i (run rt u p es)) \<le> 1"
proof (induction es arbitrary: p)
  case Nil
  then show ?case by simp
next
  case (Cons e es)
  show ?case
  proof (cases "e = ResEnd i")
    case True
    then have "ResEnd i \<notin> set es"
      using Cons.prems by (auto simp add: count_list_0_iff)
    then have "stdout_for i (run rt u (fst (step rt u p e)) es) = []"
      by (rule stdout_for_no_end)
    then show ?thesis
      using stdout_step_le [of rt u p e] by simp
  next
    case False
    then have "count_list es (ResEnd i) \<le> 1"
      using Cons.prems by simp
    then have rest: "length (stdout_for i (run rt u (fst (step rt u p e)) es)) \<le> 1"
      by (rule Cons.IH)
    have "concerns i e \<Longrightarrow> stdout_of (snd (step rt u p e)) = []"
      using False by (cases e) (simp_all add: on_error_def)
    then show ?thesis using rest by simp
  qed
qed

lemma run_append:
  "run rt u p (xs @ ys) = run rt u p xs @ run rt u (after rt u p xs) ys"
proof (induction xs arbitrary: p)
  case Nil
  then show ?case by simp
next
  case (Cons e xs)
  show ?case
  proof (cases "running p")
    case True
    then show ?thesis using Cons.IH by simp
  next
    case False
    then have "run rt u p ys = []" by (cases ys) simp_all
    then show ?thesis using False by simp
  qed
qed

lemma after_running:
  "running p \<Longrightarrow> Sigterm \<notin> set es \<Longrightarrow> Sigint \<notin> set es \<Longrightarrow> running (after rt u p es)"
proof (induction es arbitrary: p)
  case Nil
  then show ?case by simp
next
  case (Cons e es)
  have "running (fst (step rt u p e))"
    using Cons.prems step_keeps_running [of e rt u p] by auto
  then show ?case using Cons by simp
qed

lemma step_request:
  assumes "i < length (requests p)"
  shows "i < length (requests (fst (step rt u p e))) \<and>
         pending_request (requests (fst (step rt u p e)) ! i) = pending_request (requests p ! i) \<and>
         pending_data (requests (fst (step rt u p e)) ! i) =
           pending_data (requests p ! i) @ concat (map (buffer_to_string rt) (chunks_for i [e]))"
proof (cases e)
  case (Line line)
  then show ?thesis using assms by (simp add: on_line_def nth_append)
next
  case (ResData j chunk)
  then show ?thesis using assms by (simp add: on_data_def nth_list_update)
qed (use assms in simp_all)

lemma chunks_for_Cons: "chunks_for i (e # es) = chunks_for i [e] @ chunks_for i es"
  by (cases e) simp_all

lemma after_request:
  assumes "running p" and "Sigterm \<notin> set es" and "Sigint \<notin> set es"
    and "i < length (requests p)"
  shows "i < length (requests (after rt u p es)) \<and>
         pending_request (requests (after rt u p es) ! i) = pending_request (requests p ! i) \<and>
         pending_data (requests (after rt u p es) ! i) =
           pending_data (requests p ! i) @ concat (map (buffer_to_string rt) (chunks_for i es))"
  using assms
proof (induction es arbitrary: p)
  case Nil
  then show ?case by simp
next
  case (Cons e es)
  let ?q = "fst (step rt u p e)"
  have q: "running ?q"
    using Cons.prems step_keeps_running [of e rt u p] by auto
  have s: "i < length (requests ?q) \<and>
         pending_request (requests ?q ! i) = pending_request (requests p ! i) \<and>
         pending_data (requests ?q ! i) =
           pending_data (requests p ! i) @ concat (map (buffer_to_string rt) (chunks_for i [e]))"
    using Cons.prems(4) by (rule step_request)
  have "i < length (requests (after rt u ?q es)) \<and>
         pending_request (requests (after rt u ?q es) ! i) = pending_request (requests ?q ! i) \<and>
         pending_data (requests (after rt u ?q es) ! i) =
           pending_data (requests ?q ! i) @ concat (map (buffer_to_string rt) (chunks_for i es))"
    using Cons.IH [OF q] Cons.prems s by simp
  then show ?case
    using Cons.prems(1) s chunks_for_Cons [of i e es] by simp
qed

text \<open>
  The life of one request: the line is read in state \<open>p\<close>, events \<open>pre\<close> follow
  without a signal, then the response ends. The \<^verbatim>\<open>end\<close> handler runs on the parsed
  line and on the chunks received so far, each decoded on its own.
\<close>

lemma request_ends:
  assumes "running p" and "trim line \<noteq> []" and "Sigterm \<notin> set pre" and "Sigint \<notin> set pre"
  shows "run rt u p (Line line # pre @ ResEnd (length (requests p)) # post) =
           run rt u p (Line line # pre) @
           (ResEnd (length (requests p)),
            on_end rt (parse_request rt line)
              (concat (map (buffer_to_string rt) (chunks_for (length (requests p)) pre)))) #
           run rt u (after rt u p (Line line # pre)) post"
    and "running (after rt u p (Line line # pre))"
proof -
  let ?i = "length (requests p)"
  let ?q = "fst (step rt u p (Line line))"
  have q: "running ?q" "?i < length (requests ?q)"
    "pending_request (requests ?q ! ?i) = parse_request rt line"
    "pending_data (requests ?q ! ?i) = []"
    using assms(1,2) by (simp_all add: on_line_def)
  have a: "after rt u p (Line line # pre) = after rt u ?q pre"
    using assms(1) by simp
  have r: "running (after rt u ?q pre)"
    using q(1) assms(3,4) by (rule after_running)
  have t: "?i < length (requests (after rt u ?q pre)) \<and>
      pending_request (requests (after rt u ?q pre) ! ?i) = pending_request (requests ?q ! ?i) \<and>
      pending_data (requests (after rt u ?q pre) ! ?i) =
        pending_data (requests ?q ! ?i) @
        concat (map (buffer_to_string rt) (chunks_for ?i pre))"
    using q(1) assms(3,4) q(2) by (rule after_request)
  have "run rt u p ((Line line # pre) @ ResEnd ?i # post) =
      run rt u p (Line line # pre) @ run rt u (after rt u p (Line line # pre)) (ResEnd ?i # post)"
    by (rule run_append)
  then show "run rt u p (Line line # pre @ ResEnd ?i # post) =
           run rt u p (Line line # pre) @
           (ResEnd ?i,
            on_end rt (parse_request rt line)
              (concat (map (buffer_to_string rt) (chunks_for ?i pre)))) #
           run rt u (after rt u p (Line line # pre)) post"
    using r t q(3,4) unfolding a by simp
  show "running (after rt u p (Line line # pre))"
    using r unfolding a .
qed

lemma stdout_for_append:
  "stdout_for i (xs @ ys) = stdout_for i xs @ stdout_for i ys"
  by (induction xs) auto

lemma request_output:
  assumes "running p" and "trim line \<noteq> []" and "Sigterm \<notin> set pre" and "Sigint \<notin> set pre"
    and "ResEnd (length (requests p)) \<notin> set pre" and "ResEnd (length (requests p)) \<notin> set post"
  shows "stdout_for (length (requests p))
           (run rt u p (Line line # pre @ ResEnd (length (requests p)) # post)) =
         stdout_of (on_end rt (parse_request rt line)
           (concat (map (buffer_to_string rt) (chunks_for (length (requests p)) pre))))"
proof -
  let ?i = "length (requests p)"
  have "ResEnd ?i \<notin> set (Line line # pre)" using assms(5) by simp
  then have a: "stdout_for ?i (run rt u p (Line line # pre)) = []"
    by (rule stdout_for_no_end)
  have b: "stdout_for ?i (run rt u (after rt u p (Line line # pre)) post) = []"
    using assms(6) by (rule stdout_for_no_end)
  show ?thesis
    unfolding request_ends(1) [OF assms(1-4)] stdout_for_append
    using a b by simp
qed

lemma gathered_unchanged:
  "\<forall>c \<in> set chunks. buffer_to_string rt c = c \<Longrightarrow>
   concat (map (buffer_to_string rt) chunks) = concat chunks"
  by (induction chunks) simp_all

lemma lines_in_single: "lines_in [text @ [CHR 0x0A]] = Suc (count_list text (CHR 0x0A))"
  by (simp add: lines_in_def)

section \<open>The handler against the specification's decision\<close>

lemma on_end_decision:
  assumes "spec_decision rt request data \<noteq> Drop \<or> \<not> isl (interpolate rt (method_of request))"
  shows "stdout_of (on_end rt request data) =
     (case spec_decision rt request data of
        Drop \<Rightarrow> []
      | Substitute text \<Rightarrow> [text @ [CHR 0x0A]]
      | PassThrough \<Rightarrow> [data @ [CHR 0x0A]])"
proof (cases "json_parse rt data")
  case (Inl msg)
  then show ?thesis by (simp add: on_end_not_json spec_decision_def)
next
  case (Inr response)
  show ?thesis
  proof (cases "method_not_found response")
    case False
    then have "stdout_of (on_end rt request data) = [data @ [CHR 0x0A]]"
      using Inr by (cases "response = JNull") (simp_all add: on_end_null on_end_other_response)
    then show ?thesis using Inr False by (simp add: spec_decision_def)
  next
    case True
    show ?thesis
    proof (cases "requestId_of request")
      case None
      then have d: "spec_decision rt request data = Drop"
        using Inr True by (simp add: spec_decision_def)
      then obtain m where "interpolate rt (method_of request) = Inr m"
        using assms by (cases "interpolate rt (method_of request)") simp_all
      then show ?thesis
        using on_end_drop [OF Inr True None] d by simp
    next
      case (Some i)
      show ?thesis
      proof (cases "\<exists>name. method_of request = Some (JString name)")
        case True
        then obtain name where n: "method_of request = Some (JString name)" by blast
        show ?thesis
          using on_end_convert [OF Inr \<open>method_not_found response\<close> Some n] Inr Some n
            \<open>method_not_found response\<close>
          by (simp add: spec_decision_def)
      next
        case False
        then have "\<And>name. method_of request \<noteq> Some (JString name)" by simp
        then have "on_end rt request data = [console_log data]"
          by (rule on_end_keep [OF Inr \<open>method_not_found response\<close> Some])
        then show ?thesis
          using Inr Some False \<open>method_not_found response\<close> by (simp add: spec_decision_def)
      qed
    qed
  qed
qed

section \<open>Evaluating the samples\<close>

lemmas sample_texts = prompts_call_def resources_call_def tools_call_def null_id_call_def
  initialized_def no_method_def odd_method_def not_found_def tools_result_def
  accented_result_def split_head_def split_tail_def damaged_result_def pretty_result_def
  error_page_def

lemma not_method_not_found_iff:
  "(\<not> method_not_found response) =
   (get_property response ''error'' = None \<or>
    (\<exists>e. get_property response ''error'' = Some e \<and>
         get_property e ''code'' \<noteq> Some (JNumber (Number (- 32601)))))"
proof (cases "get_property response ''error''")
  case None
  then show ?thesis by (simp add: method_not_found_def)
next
  case (Some e)
  have "\<not> truthy (Some e) \<Longrightarrow> get_property e ''code'' = None"
    by (cases e) simp_all
  then show ?thesis using Some by (auto simp add: method_not_found_def)
qed

lemma node_parse:
  "json_parse node prompts_call = Inr (JObject [(''jsonrpc'', JString ''2.0''),
     (''id'', JNumber (Number 7)), (''method'', JString ''prompts/list'')])"
  "json_parse node resources_call = Inr (JObject [(''jsonrpc'', JString ''2.0''),
     (''id'', JNumber (Number 8)), (''method'', JString ''resources/list'')])"
  "json_parse node tools_call = Inr (JObject [(''jsonrpc'', JString ''2.0''),
     (''id'', JNumber (Number 3)), (''method'', JString ''tools/call'')])"
  "json_parse node null_id_call = Inr (JObject [(''jsonrpc'', JString ''2.0''),
     (''id'', JNull), (''method'', JString ''prompts/list'')])"
  "json_parse node initialized = Inr (JObject [(''jsonrpc'', JString ''2.0''),
     (''method'', JString ''notifications/initialized'')])"
  "json_parse node no_method = Inr (JObject [(''jsonrpc'', JString ''2.0'')])"
  "json_parse node odd_method = Inr (JObject [(''jsonrpc'', JString ''2.0''),
     (''method'', JObject [(''toString'', JNumber (Number 0))])])"
  "json_parse node not_found = Inr (JObject [(''jsonrpc'', JString ''2.0''), (''id'', JNull),
     (''error'', JObject [(''code'', JNumber (Number (- 32601))),
                          (''message'', JString ''Method not found'')])])"
  "json_parse node tools_result = Inr (JObject [(''jsonrpc'', JString ''2.0''),
     (''id'', JNumber (Number 3)), (''result'', JObject [(''tools'', JArray [])])])"
  "json_parse node ''not json at all'' = Inl ''Unexpected token''"
  "json_parse node ''<html>502 Bad Gateway</html>'' = Inl ''Unexpected token''"
  by (simp_all add: node_def parsed_def sample_texts)

lemma not_found_is_error:
  "method_not_found (JObject [(''jsonrpc'', JString ''2.0''), (''id'', JNull),
     (''error'', JObject [(''code'', JNumber (Number (- 32601))),
                          (''message'', JString ''Method not found'')])])"
  by (simp add: method_not_found_def)

lemma sample_not_blank:
  "trim prompts_call \<noteq> []" "trim resources_call \<noteq> []" "trim tools_call \<noteq> []"
  "trim ''not json at all'' \<noteq> []"
  by (simp_all add: sample_texts trim_def trimEnd_def ws1_def ws2_def ws3_def)

lemma node_decode:
  "buffer_to_string node tools_result = tools_result"
  "buffer_to_string node not_found = not_found"
  "buffer_to_string node pretty_result = pretty_result"
  "buffer_to_string node error_page = error_page"
  "buffer_to_string node split_head @ buffer_to_string node split_tail = damaged_result"
  by (simp_all add: node_def sample_texts)

lemma node_parse_more:
  "json_parse node accented_result = Inr (JObject [(''jsonrpc'', JString ''2.0''),
     (''id'', JNumber (Number 3)), (''result'', JString [CHR 0xC3, CHR 0xA9])])"
  "json_parse node damaged_result = Inr (JObject [(''jsonrpc'', JString ''2.0''),
     (''id'', JNumber (Number 3)),
     (''result'', JString [CHR 0xEF, CHR 0xBF, CHR 0xBD, CHR 0xEF, CHR 0xBF, CHR 0xBD])])"
  "json_parse node pretty_result = Inr (JObject [(''jsonrpc'', JString ''2.0''),
     (''id'', JNumber (Number 3)), (''result'', JObject [(''tools'', JArray [])])])"
  "json_parse node error_page = Inl ''Unexpected token''"
  by (simp_all add: node_def parsed_def sample_texts)

lemma split_is_accented: "split_head @ split_tail = accented_result"
  by (simp add: sample_texts)

lemma started_running: "running started" "length (requests started) = 0"
  by (simp_all add: started_def)

lemma node_not_primitive:
  "not_primitive_message node = ''Cannot convert object to primitive value''"
  by (simp add: node_def)

section \<open>Notifications\<close>

lemma requestId_of_no_id:
  "get_property req ''id'' = None \<Longrightarrow> requestId_of (Some req) = None"
  by (simp add: requestId_of_def)

lemma notification_dropped:
  assumes "json_parse rt data = Inr response" and "method_not_found response"
    and "json_parse rt line = Inr req" and "get_property req ''id'' = None"
    and "interpolate rt (method_of (parse_request rt line)) = Inr m"
  shows "on_end rt (parse_request rt line) data =
     [Stderr (''[PROXY] Dropped -32601 error for notification: '' @ m @ [CHR 0x0A])]"
proof -
  have "requestId_of (parse_request rt line) = None"
    using assms(3,4) by (simp add: parse_request_def requestId_of_no_id)
  then show ?thesis
    using on_end_drop [OF assms(1,2) _ assms(5)] by (simp add: stderr_write_def)
qed

lemma named_notification_dropped:
  assumes "json_parse rt data = Inr response" and "method_not_found response"
    and "json_parse rt line = Inr req" and "get_property req ''id'' = None"
    and "get_property req ''method'' = Some (JString name)"
  shows "on_end rt (parse_request rt line) data =
     [Stderr (''[PROXY] Dropped -32601 error for notification: '' @ name @ [CHR 0x0A])]"
proof -
  have "truthy (Some req)" using assms(5) by (cases req) simp_all
  then have "method_of (parse_request rt line) = Some (JString name)"
    using assms(3,5) by (simp add: parse_request_def method_of_def)
  then have "interpolate rt (method_of (parse_request rt line)) = Inr name"
    by (simp add: interpolate_def)
  then show ?thesis
    by (rule notification_dropped [OF assms(1-4)])
qed

section \<open>Substitution of an empty list\<close>



section \<open>Dropping the error of a notification\<close>

text \<open>
  C2. The response parses as JSON and has an \<^verbatim>\<open>error\<close> whose \<^verbatim>\<open>code\<close> is -32601, and
  the parsed request has no \<^verbatim>\<open>id\<close>: nothing is to be written to standard output, and
  the method is to be reported on standard error. The handler does so whenever the
  method converts to a string (the two lemmas above). Evaluated on the notification
  whose \<^verbatim>\<open>method\<close> is the object \<^verbatim>\<open>{"toString":0}\<close>, it does not: the template literal
  of the report throws inside the \<^verbatim>\<open>try\<close> block, the \<^verbatim>\<open>catch\<close> reports a parse error,
  and the error response is written to standard output.
\<close>

theorem notification_error_not_dropped:
  "method_not_found (projr (json_parse node not_found)) \<and>
   get_property (projr (json_parse node odd_method)) ''id'' = None \<and>
   on_end node (parse_request node odd_method) not_found =
     [Stderr (''[PROXY] Parse error: Cannot convert object to primitive value'' @ [CHR 0x0A]),
      Stdout (not_found @ [CHR 0x0A])]"
proof -
  note h = not_found_is_error
  have r: "requestId_of (parse_request node odd_method) = None"
    by (simp add: parse_request_def node_parse requestId_of_def)
  have m: "interpolate node (method_of (parse_request node odd_method)) =
      Inl ''Cannot convert object to primitive value''"
    by (simp add: parse_request_def node_parse method_of_def interpolate_def
        node_not_primitive)
  show ?thesis
    using on_end_drop_throws [OF node_parse(8) h r m]
    by (simp add: node_parse h stderr_write_def console_log_def)
qed

section \<open>Responses passed through\<close>

text \<open>
  A response that parses as JSON and has no \<^verbatim>\<open>error\<close>, or an \<^verbatim>\<open>error\<close> whose \<^verbatim>\<open>code\<close>
  is not -32601, is written as the \<^verbatim>\<open>data\<close> handler gathered it, whatever the request
  was. When every chunk is valid UTF-8 on its own, that is the body as received.
\<close>

lemma on_end_pass_through:
  assumes "json_parse rt data = Inr response"
    and "get_property response ''error'' = None \<or>
         (\<exists>e. get_property response ''error'' = Some e \<and>
              get_property e ''code'' \<noteq> Some (JNumber (Number (- 32601))))"
  shows "stdout_of (on_end rt request data) = [data @ [CHR 0x0A]]"
proof (cases "response = JNull")
  case True
  then show ?thesis using assms(1) by (simp add: on_end_null)
next
  case False
  moreover have "\<not> method_not_found response"
    using assms(2) by (simp add: not_method_not_found_iff)
  ultimately show ?thesis
    using assms(1) by (simp add: on_end_other_response)
qed

lemma valid_body_passed_through:
  assumes "running p" and "trim line \<noteq> []" and "Sigterm \<notin> set pre" and "Sigint \<notin> set pre"
    and "ResEnd (length (requests p)) \<notin> set pre" and "ResEnd (length (requests p)) \<notin> set post"
    and "\<forall>c \<in> set (chunks_for (length (requests p)) pre). buffer_to_string rt c = c"
    and "json_parse rt (concat (chunks_for (length (requests p)) pre)) = Inr response"
    and "get_property response ''error'' = None \<or>
         (\<exists>e. get_property response ''error'' = Some e \<and>
              get_property e ''code'' \<noteq> Some (JNumber (Number (- 32601))))"
  shows "stdout_for (length (requests p))
           (run rt u p (Line line # pre @ ResEnd (length (requests p)) # post)) =
         [concat (chunks_for (length (requests p)) pre) @ [CHR 0x0A]]"
  unfolding request_output [OF assms(1-6)] gathered_unchanged [OF assms(7)]
  using assms(8,9) by (rule on_end_pass_through)

text \<open>
  C3. The bytes written are to equal the bytes of the response body, for every body
  whose JSON has no \<^verbatim>\<open>error\<close>. Evaluated on the result that holds the character
  U+00E9 and arrives in two chunks that split the character, the program writes
  another text: each chunk is decoded on its own, the lone first byte and the lone
  second byte each become U+FFFD, and the gathered text, which still parses as JSON
  without an \<^verbatim>\<open>error\<close>, is what \<^verbatim>\<open>console.log\<close> writes.
\<close>

theorem split_character_replaced:
  "split_head @ split_tail = accented_result \<and>
   get_property (projr (json_parse node accented_result)) ''error'' = None \<and>
   run node server started [Line tools_call, ResData 0 split_head, ResData 0 split_tail, ResEnd 0] =
     [(Line tools_call, [Request (request_for server tools_call)]),
      (ResData 0 split_head, []),
      (ResData 0 split_tail, []),
      (ResEnd 0, [Stdout (damaged_result @ [CHR 0x0A])])] \<and>
   damaged_result \<noteq> accented_result"
proof -
  have e: "get_property (JObject [(''jsonrpc'', JString ''2.0''),
     (''id'', JNumber (Number 3)),
     (''result'', JString [CHR 0xEF, CHR 0xBF, CHR 0xBD, CHR 0xEF, CHR 0xBF, CHR 0xBD])]) ''error'' = None"
    by simp
  have o: "on_end node (parse_request node tools_call) damaged_result = [console_log damaged_result]"
    using on_end_other_response [OF node_parse_more(2)] e
    by (simp add: not_method_not_found_iff)
  have r: "run node server started
      (Line tools_call # [ResData 0 split_head, ResData 0 split_tail] @ ResEnd (length (requests started)) # []) =
      run node server started (Line tools_call # [ResData 0 split_head, ResData 0 split_tail]) @
      (ResEnd (length (requests started)),
       on_end node (parse_request node tools_call)
         (concat (map (buffer_to_string node)
            (chunks_for (length (requests started)) [ResData 0 split_head, ResData 0 split_tail])))) #
      run node server (after node server started (Line tools_call # [ResData 0 split_head, ResData 0 split_tail])) []"
    by (rule request_ends(1)) (simp_all add: started_running sample_not_blank)
  have d: "damaged_result \<noteq> accented_result"
    by (simp add: sample_texts)
  have h: "run node server started (Line tools_call # [ResData 0 split_head, ResData 0 split_tail]) =
     [(Line tools_call, [Request (request_for server tools_call)]),
      (ResData 0 split_head, []),
      (ResData 0 split_tail, [])]"
    using sample_not_blank by (simp add: started_def on_line_def)
  show ?thesis
    using r d unfolding h
    by (simp add: started_running node_decode o console_log_def split_is_accented node_parse_more)
qed

section \<open>Lines that are not JSON\<close>




section \<open>Responses that are not JSON\<close>

text \<open>
  The claim C5 as stated fails: a gateway's error page on three lines is not JSON, and
  it is written unchanged in one \<^verbatim>\<open>console.log\<close> call, which puts three lines on
  standard output, not one.
\<close>

theorem error_page_on_three_lines:
  "json_parse node error_page = Inl ''Unexpected token'' \<and>
   run node server started [Line tools_call, ResData 0 error_page, ResEnd 0] =
     [(Line tools_call, [Request (request_for server tools_call)]),
      (ResData 0 error_page, []),
      (ResEnd 0, [Stderr (''[PROXY] Parse error: Unexpected token'' @ [CHR 0x0A]),
                  Stdout (error_page @ [CHR 0x0A])])] \<and>
   lines_in (stdout_for 0 (run node server started
     [Line tools_call, ResData 0 error_page, ResEnd 0])) = 3"
proof -
  have r: "run node server started [Line tools_call, ResData 0 error_page, ResEnd 0] =
     [(Line tools_call, [Request (request_for server tools_call)]),
      (ResData 0 error_page, []),
      (ResEnd 0, [Stderr (''[PROXY] Parse error: Unexpected token'' @ [CHR 0x0A]),
                  Stdout (error_page @ [CHR 0x0A])])]"
    using sample_not_blank on_end_not_json [OF node_parse_more(4)]
    by (simp add: started_def on_line_def on_data_def node_decode stderr_write_def console_log_def)
  have "lines_in [error_page @ [CHR 0x0A]] = 3"
    by (simp add: lines_in_def error_page_def)
  then show ?thesis
    unfolding r by (simp add: node_parse_more)
qed

text \<open>
  C5, amended. A non-blank line is read, events without a signal follow, and the
  response ends; every chunk of it is valid UTF-8 on its own, and the body, the chunks
  put together, is not JSON. Whatever the request was, the \<^verbatim>\<open>end\<close> handler reports the
  parse failure on standard error and writes the body unchanged in one write followed
  by one line feed; the process is still running and handles the events that follow.
  The write is one line more than the line feeds of the body: a single line exactly
  when the body holds none.
\<close>

theorem unparsable_body_passed_through:
  assumes "running p" and "trim line \<noteq> []" and "Sigterm \<notin> set pre" and "Sigint \<notin> set pre"
    and "\<forall>c \<in> set (chunks_for (length (requests p)) pre). buffer_to_string rt c = c"
    and "json_parse rt (concat (chunks_for (length (requests p)) pre)) = Inl msg"
  shows "run rt u p (Line line # pre @ ResEnd (length (requests p)) # post) =
           run rt u p (Line line # pre) @
           (ResEnd (length (requests p)),
            [Stderr (''[PROXY] Parse error: '' @ msg @ [CHR 0x0A]),
             Stdout (concat (chunks_for (length (requests p)) pre) @ [CHR 0x0A])]) #
           run rt u (after rt u p (Line line # pre)) post \<and>
         running (after rt u p (Line line # pre)) \<and>
         (ResEnd (length (requests p)) \<notin> set pre \<and> ResEnd (length (requests p)) \<notin> set post \<longrightarrow>
            lines_in (stdout_for (length (requests p))
              (run rt u p (Line line # pre @ ResEnd (length (requests p)) # post))) =
            Suc (count_list (concat (chunks_for (length (requests p)) pre)) (CHR 0x0A)))"
proof -
  let ?i = "length (requests p)"
  let ?body = "concat (chunks_for ?i pre)"
  have g: "concat (map (buffer_to_string rt) (chunks_for ?i pre)) = ?body"
    using assms(5) by (rule gathered_unchanged)
  have o: "on_end rt (parse_request rt line) ?body =
      [Stderr (''[PROXY] Parse error: '' @ msg @ [CHR 0x0A]), Stdout (?body @ [CHR 0x0A])]"
    using on_end_not_json [OF assms(6)] by (simp add: stderr_write_def console_log_def)
  have "run rt u p (Line line # pre @ ResEnd ?i # post) =
      run rt u p (Line line # pre) @
      (ResEnd ?i, [Stderr (''[PROXY] Parse error: '' @ msg @ [CHR 0x0A]),
                   Stdout (?body @ [CHR 0x0A])]) #
      run rt u (after rt u p (Line line # pre)) post"
    using request_ends(1) [OF assms(1-4), of rt u post] unfolding g o .
  moreover have "running (after rt u p (Line line # pre))"
    using assms(1-4) by (rule request_ends(2))
  moreover have "lines_in (stdout_for ?i (run rt u p (Line line # pre @ ResEnd ?i # post))) =
      Suc (count_list ?body (CHR 0x0A))"
    if "ResEnd ?i \<notin> set pre" and "ResEnd ?i \<notin> set post"
    unfolding request_output [OF assms(1-4) that] g o by (simp add: lines_in_single)
  ultimately show ?thesis by blast
qed

theorem unparsable_body_passed_through_witness:
  "buffer_to_string node ''<html>502 Bad '' = ''<html>502 Bad '' \<and>
   buffer_to_string node ''Gateway</html>'' = ''Gateway</html>'' \<and>
   json_parse node (concat [''<html>502 Bad '', ''Gateway</html>'']) = Inl ''Unexpected token'' \<and>
   run node server started
     [Line tools_call, ResData 0 ''<html>502 Bad '', Line prompts_call,
      ResData 0 ''Gateway</html>'', ResEnd 0, Line resources_call] =
     [(Line tools_call, [Request (request_for server tools_call)]),
      (ResData 0 ''<html>502 Bad '', []),
      (Line prompts_call, [Request (request_for server prompts_call)]),
      (ResData 0 ''Gateway</html>'', []),
      (ResEnd 0, [Stderr (''[PROXY] Parse error: Unexpected token'' @ [CHR 0x0A]),
                  Stdout (''<html>502 Bad Gateway</html>'' @ [CHR 0x0A])]),
      (Line resources_call, [Request (request_for server resources_call)])] \<and>
   lines_in (stdout_for 0 (run node server started
     [Line tools_call, ResData 0 ''<html>502 Bad '', Line prompts_call,
      ResData 0 ''Gateway</html>'', ResEnd 0, Line resources_call])) = 1"
proof -
  let ?pre = "[ResData 0 ''<html>502 Bad '', Line prompts_call, ResData 0 ''Gateway</html>'']"
  have a: "Sigterm \<notin> set ?pre" and b: "Sigint \<notin> set ?pre" by simp_all
  have c: "\<forall>c \<in> set (chunks_for (length (requests started)) ?pre). buffer_to_string node c = c"
    by (simp add: started_running node_def sample_texts)
  have d: "json_parse node (concat (chunks_for (length (requests started)) ?pre)) =
      Inl ''Unexpected token''"
    by (simp add: started_running node_parse)
  have e: "run node server started (Line tools_call # ?pre) =
     [(Line tools_call, [Request (request_for server tools_call)]),
      (ResData 0 ''<html>502 Bad '', []),
      (Line prompts_call, [Request (request_for server prompts_call)]),
      (ResData 0 ''Gateway</html>'', [])]"
    using sample_not_blank by (simp add: started_def on_line_def)
  note t = unparsable_body_passed_through [OF started_running(1) sample_not_blank(3) a b c d,
      of server "[Line resources_call]"]
  have f: "run node server (after node server started (Line tools_call # ?pre)) [Line resources_call] =
     [(Line resources_call, [Request (request_for server resources_call)])]"
    using conjunct1 [OF conjunct2 [OF t]] sample_not_blank by (simp add: on_line_def)
  have g: "run node server started
     [Line tools_call, ResData 0 ''<html>502 Bad '', Line prompts_call,
      ResData 0 ''Gateway</html>'', ResEnd 0, Line resources_call] =
     [(Line tools_call, [Request (request_for server tools_call)]),
      (ResData 0 ''<html>502 Bad '', []),
      (Line prompts_call, [Request (request_for server prompts_call)]),
      (ResData 0 ''Gateway</html>'', []),
      (ResEnd 0, [Stderr (''[PROXY] Parse error: Unexpected token'' @ [CHR 0x0A]),
                  Stdout (''<html>502 Bad Gateway</html>'' @ [CHR 0x0A])]),
      (Line resources_call, [Request (request_for server resources_call)])]"
    using conjunct1 [OF t] unfolding e f by (simp add: started_running(2) del: run.simps)
  have h: "lines_in (stdout_for 0 (run node server started
     [Line tools_call, ResData 0 ''<html>502 Bad '', Line prompts_call,
      ResData 0 ''Gateway</html>'', ResEnd 0, Line resources_call])) = 1"
    using conjunct2 [OF conjunct2 [OF t]]
    by (simp add: started_running(2) del: run.simps)
  show ?thesis
    using c g h by (simp add: started_running(2) node_parse del: run.simps)
qed

section \<open>The method used by the translation\<close>

text \<open>
  The claim C6 as stated fails: for the line \<^verbatim>\<open>{"jsonrpc":"2.0"}\<close>, which parses and
  has no \<^verbatim>\<open>method\<close>, the method is \<^verbatim>\<open>undefined\<close>, not \<^verbatim>\<open>unknown\<close>, and the report of
  the dropped response names \<^verbatim>\<open>undefined\<close>.
\<close>

theorem method_absent_is_undefined:
  "json_parse node no_method = Inr (JObject [(''jsonrpc'', JString ''2.0'')]) \<and>
   get_property (JObject [(''jsonrpc'', JString ''2.0'')]) ''method'' = None \<and>
   method_of (parse_request node no_method) = None \<and>
   method_of (parse_request node no_method) \<noteq> Some (JString ''unknown'') \<and>
   on_end node (parse_request node no_method) not_found =
     [Stderr (''[PROXY] Dropped -32601 error for notification: undefined'' @ [CHR 0x0A])]"
proof -
  note h = not_found_is_error
  have m: "method_of (parse_request node no_method) = None"
    by (simp add: parse_request_def node_parse method_of_def)
  have r: "requestId_of (parse_request node no_method) = None"
    by (simp add: parse_request_def node_parse requestId_of_def)
  have i: "interpolate node (method_of (parse_request node no_method)) = Inr ''undefined''"
    by (simp add: m interpolate_def)
  show ?thesis
    using on_end_drop [OF node_parse(8) h r i] m
    by (simp add: node_parse stderr_write_def)
qed

text \<open>
  C6, amended. The method is \<^verbatim>\<open>unknown\<close> when the line is not JSON, and when it parses
  to a value that counts as false (\<^verbatim>\<open>null\<close>, \<^verbatim>\<open>false\<close>, \<^verbatim>\<open>0\<close>, the empty string).
  For every other parsed line it is the value's own \<^verbatim>\<open>method\<close> property, which is
  \<^verbatim>\<open>undefined\<close> when the property is absent.
\<close>

theorem method_default:
  "method_of (parse_request rt line) =
     (case json_parse rt line of
        Inl err \<Rightarrow> Some (JString ''unknown'')
      | Inr req \<Rightarrow> if truthy (Some req) then get_property req ''method''
                   else Some (JString ''unknown''))"
  by (simp add: parse_request_def method_of_def split: sum.splits)

theorem method_default_witness:
  "method_of (parse_request node ''not json at all'') = Some (JString ''unknown'') \<and>
   method_of (parse_request node initialized) = Some (JString ''notifications/initialized'') \<and>
   method_of (parse_request node no_method) = None"
  using method_default [of node "''not json at all''"] method_default [of node initialized]
    method_default [of node no_method]
  by (simp add: node_parse)

section \<open>One request for each line\<close>

text \<open>
  C7. In a run without a termination signal, whatever response events are
  interleaved, the requests sent are as many as the lines read when none of them is
  blank, and the \<open>k\<close>-th request is a POST whose body is the \<open>k\<close>-th line, whose
  \<^verbatim>\<open>Content-Type\<close> is \<^verbatim>\<open>application/json\<close> and whose \<^verbatim>\<open>Content-Length\<close> is the number of
  bytes of that line.
\<close>

theorem one_request_per_line:
  assumes "running p" and "Sigterm \<notin> set es" and "Sigint \<notin> set es"
    and "\<forall>line \<in> set (lines_of es). trim line \<noteq> []"
  shows "length (requests_of (effects_of (run rt u p es))) = length (lines_of es) \<and>
         (\<forall>k < length (lines_of es).
            body (requests_of (effects_of (run rt u p es)) ! k) = lines_of es ! k \<and>
            http_method (requests_of (effects_of (run rt u p es)) ! k) = ''POST'' \<and>
            content_type (requests_of (effects_of (run rt u p es)) ! k) = ''application/json'' \<and>
            content_length (requests_of (effects_of (run rt u p es)) ! k) =
              length (lines_of es ! k))"
proof -
  have "filter (\<lambda>line. trim line \<noteq> []) (lines_of es) = lines_of es"
    using assms(4) by simp
  then have "requests_of (effects_of (run rt u p es)) = map (request_for u) (lines_of es)"
    using requests_of_run [OF assms(1-3), of rt u] by simp
  then show ?thesis
    by (simp add: request_for_def byteLength_def)
qed

theorem one_request_per_line_witness:
  "trim prompts_call \<noteq> [] \<and> trim ''not json at all'' \<noteq> [] \<and> trim tools_call \<noteq> [] \<and>
   requests_of (effects_of (run node server started
     [Line prompts_call, ResData 0 not_found, Line ''not json at all'', ResEnd 0,
      Line tools_call])) =
   [request_for server prompts_call, request_for server ''not json at all'',
    request_for server tools_call] \<and>
   map body (requests_of (effects_of (run node server started
     [Line prompts_call, ResData 0 not_found, Line ''not json at all'', ResEnd 0,
      Line tools_call]))) =
   [prompts_call, ''not json at all'', tools_call]"
proof -
  let ?es = "[Line prompts_call, ResData 0 not_found, Line ''not json at all'', ResEnd 0,
      Line tools_call]"
  have a: "running started" by (simp add: started_def)
  have b: "Sigterm \<notin> set ?es" and c: "Sigint \<notin> set ?es" by simp_all
  have d: "\<forall>line \<in> set (lines_of ?es). trim line \<noteq> []"
    using sample_not_blank by simp
  have e: "length (requests_of (effects_of (run node server started ?es))) = 3"
    using one_request_per_line [OF a b c d, of node server] by simp
  have f: "\<forall>k < 3. body (requests_of (effects_of (run node server started ?es)) ! k) = lines_of ?es ! k"
    using one_request_per_line [OF a b c d, of node server] by simp
  have g: "requests_of (effects_of (run node server started ?es)) =
      map (request_for server) (lines_of ?es)"
    using requests_of_run [OF a b c, of node server] d by simp
  show ?thesis using sample_not_blank e f g by (simp add: request_for_def)
qed

section \<open>At most one write for each input line\<close>

text \<open>
  The claim C8 as stated fails: a result printed on three lines is passed through in
  one \<^verbatim>\<open>console.log\<close> call, so one input line puts three lines on standard output.
\<close>

theorem pretty_result_on_three_lines:
  "trim tools_call \<noteq> [] \<and>
   run node server started [Line tools_call, ResData 0 pretty_result, ResEnd 0] =
     [(Line tools_call, [Request (request_for server tools_call)]),
      (ResData 0 pretty_result, []),
      (ResEnd 0, [Stdout (pretty_result @ [CHR 0x0A])])] \<and>
   lines_in (stdout_for 0 (run node server started
     [Line tools_call, ResData 0 pretty_result, ResEnd 0])) = 3"
proof -
  have e: "get_property (JObject [(''jsonrpc'', JString ''2.0''),
     (''id'', JNumber (Number 3)), (''result'', JObject [(''tools'', JArray [])])]) ''error'' = None"
    by simp
  have o: "on_end node (parse_request node tools_call) pretty_result = [console_log pretty_result]"
    using on_end_other_response [OF node_parse_more(3)] e
    by (simp add: not_method_not_found_iff)
  have r: "run node server started [Line tools_call, ResData 0 pretty_result, ResEnd 0] =
     [(Line tools_call, [Request (request_for server tools_call)]),
      (ResData 0 pretty_result, []),
      (ResEnd 0, [Stdout (pretty_result @ [CHR 0x0A])])]"
    using sample_not_blank o
    by (simp add: started_def on_line_def on_data_def node_decode console_log_def)
  have "lines_in [pretty_result @ [CHR 0x0A]] = 3"
    by (simp add: lines_in_def pretty_result_def)
  then show ?thesis
    unfolding r using sample_not_blank by simp
qed

text \<open>
  C8, amended. A non-blank line is read in state \<open>p\<close>, events without a signal
  follow, and the response ends once. Unless the specification's decision is Drop and
  the method has no string conversion, what the handlers of the request write to
  standard output is what the decision says: nothing for Drop, one write of the
  substituted response and a line feed for Substitute, one write of the gathered body
  and a line feed for PassThrough. The lines written are none for Drop and otherwise
  one more than the line feeds of the text, so exactly one when the text holds none.
  A blank line sends nothing and leaves the state as it was; a request whose response
  never ends (a transport error) has nothing written for it; and in every run a
  request whose response ends at most once has at most one write.
\<close>

theorem one_write_per_line:
  assumes "running p" and "trim line \<noteq> []" and "Sigterm \<notin> set pre" and "Sigint \<notin> set pre"
    and "ResEnd (length (requests p)) \<notin> set pre" and "ResEnd (length (requests p)) \<notin> set post"
    and "spec_decision rt (parse_request rt line)
           (concat (map (buffer_to_string rt) (chunks_for (length (requests p)) pre))) \<noteq> Drop \<or>
         \<not> isl (interpolate rt (method_of (parse_request rt line)))"
  shows "stdout_for (length (requests p))
           (run rt u p (Line line # pre @ ResEnd (length (requests p)) # post)) =
           (case spec_decision rt (parse_request rt line)
                   (concat (map (buffer_to_string rt) (chunks_for (length (requests p)) pre))) of
              Drop \<Rightarrow> []
            | Substitute text \<Rightarrow> [text @ [CHR 0x0A]]
            | PassThrough \<Rightarrow>
                [concat (map (buffer_to_string rt) (chunks_for (length (requests p)) pre)) @
                 [CHR 0x0A]]) \<and>
         lines_in (stdout_for (length (requests p))
           (run rt u p (Line line # pre @ ResEnd (length (requests p)) # post))) =
           (case spec_decision rt (parse_request rt line)
                   (concat (map (buffer_to_string rt) (chunks_for (length (requests p)) pre))) of
              Drop \<Rightarrow> 0
            | Substitute text \<Rightarrow> Suc (count_list text (CHR 0x0A))
            | PassThrough \<Rightarrow>
                Suc (count_list
                  (concat (map (buffer_to_string rt) (chunks_for (length (requests p)) pre)))
                  (CHR 0x0A))) \<and>
         (trim blank = [] \<longrightarrow> run rt u p (Line blank # es) = (Line blank, []) # run rt u p es) \<and>
         (ResEnd j \<notin> set es \<longrightarrow> stdout_for j (run rt u q es) = []) \<and>
         (count_list es (ResEnd j) \<le> 1 \<longrightarrow> length (stdout_for j (run rt u q es)) \<le> 1)"
proof -
  let ?data = "concat (map (buffer_to_string rt) (chunks_for (length (requests p)) pre))"
  let ?out = "stdout_for (length (requests p))
           (run rt u p (Line line # pre @ ResEnd (length (requests p)) # post))"
  have out: "?out =
      (case spec_decision rt (parse_request rt line) ?data of
         Drop \<Rightarrow> []
       | Substitute text \<Rightarrow> [text @ [CHR 0x0A]]
       | PassThrough \<Rightarrow> [?data @ [CHR 0x0A]])"
    unfolding request_output [OF assms(1-6)] using assms(7) by (rule on_end_decision)
  have "lines_in ?out =
      (case spec_decision rt (parse_request rt line) ?data of
         Drop \<Rightarrow> 0
       | Substitute text \<Rightarrow> Suc (count_list text (CHR 0x0A))
       | PassThrough \<Rightarrow> Suc (count_list ?data (CHR 0x0A)))"
    unfolding out by (simp add: lines_in_def split: decision.splits)
  moreover have "trim blank = [] \<longrightarrow> run rt u p (Line blank # es) = (Line blank, []) # run rt u p es"
    using assms(1) by (simp add: on_line_def)
  moreover have "ResEnd j \<notin> set es \<longrightarrow> stdout_for j (run rt u q es) = []"
    by (simp add: stdout_for_no_end)
  moreover have "count_list es (ResEnd j) \<le> 1 \<longrightarrow> length (stdout_for j (run rt u q es)) \<le> 1"
    using stdout_for_one_end [of es j rt u q] by blast
  ultimately show ?thesis using out by simp
qed

theorem one_write_per_line_witness:
  "spec_decision node (parse_request node prompts_call) (buffer_to_string node not_found) =
     Substitute ''{\"jsonrpc\":\"2.0\",\"id\":7,\"result\":{\"prompts\":[]}}'' \<and>
   stdout_for 0 (run node server started [Line prompts_call, ResData 0 not_found, ResEnd 0]) =
     [''{\"jsonrpc\":\"2.0\",\"id\":7,\"result\":{\"prompts\":[]}}'' @ [CHR 0x0A]] \<and>
   lines_in (stdout_for 0 (run node server started
     [Line prompts_call, ResData 0 not_found, ResEnd 0])) = 1"
proof -
  have s: "json_stringify node (JObject [(''jsonrpc'', JString ''2.0''), (''id'', JNumber (Number 7)),
        (''result'', JObject [(''prompts'', JArray [])])]) =
      ''{\"jsonrpc\":\"2.0\",\"id\":7,\"result\":{\"prompts\":[]}}''"
    by (simp add: node_def stringified_def)
  have r: "requestId_of (parse_request node prompts_call) = Some (JNumber (Number 7))"
    and m: "method_of (parse_request node prompts_call) = Some (JString ''prompts/list'')"
    by (simp_all add: parse_request_def node_parse requestId_of_def method_of_def)
  have d: "spec_decision node (parse_request node prompts_call) not_found =
      Substitute ''{\"jsonrpc\":\"2.0\",\"id\":7,\"result\":{\"prompts\":[]}}''"
    using not_found_is_error
    by (simp add: spec_decision_def node_parse r m empty_result_def s)
  have a: "Sigterm \<notin> set [ResData 0 not_found]" and b: "Sigint \<notin> set [ResData 0 not_found]"
    and c: "ResEnd (length (requests started)) \<notin> set [ResData 0 not_found]"
    and e: "ResEnd (length (requests started)) \<notin> set []"
    by simp_all
  have f: "spec_decision node (parse_request node prompts_call)
        (concat (map (buffer_to_string node)
           (chunks_for (length (requests started)) [ResData 0 not_found]))) \<noteq> Drop \<or>
      \<not> isl (interpolate node (method_of (parse_request node prompts_call)))"
    by (simp add: started_running node_decode d)
  note t = one_write_per_line [OF started_running(1) sample_not_blank(1) a b c e f, of server]
  have x: "stdout_for 0 (run node server started [Line prompts_call, ResData 0 not_found, ResEnd 0]) =
     [''{\"jsonrpc\":\"2.0\",\"id\":7,\"result\":{\"prompts\":[]}}'' @ [CHR 0x0A]]"
    using conjunct1 [OF t] by (simp add: started_running(2) node_decode d del: run.simps)
  have y: "lines_in (stdout_for 0 (run node server started
       [Line prompts_call, ResData 0 not_found, ResEnd 0])) = 1"
    using conjunct1 [OF conjunct2 [OF t]]
    by (simp add: started_running(2) node_decode d del: run.simps)
  show ?thesis
    using x y by (simp add: node_decode d del: run.simps)
qed

section \<open>Transport errors\<close>

text \<open>
  C9. When request \<open>i\<close> fails with a transport error, the \<^verbatim>\<open>error\<close> handler writes
  \<^verbatim>\<open>HTTP Error:\<close> and the message to standard error and nothing else; the process
  keeps its state and handles the events that follow. In a run in which the response
  of request \<open>i\<close> never ends, nothing is written to standard output for it.
\<close>

theorem transport_error_reported:
  assumes "running p" and "i < length (requests p)"
    and "ResEnd i \<notin> set before" and "ResEnd i \<notin> set es"
  shows "run rt u p (ReqError i message # es) =
           (ReqError i message, [Stderr (''HTTP Error: '' @ message @ [CHR 0x0A])]) #
           run rt u p es \<and>
         stdout_for i (run rt u q (before @ ReqError i message # es)) = []"
proof -
  have "ResEnd i \<notin> set (before @ ReqError i message # es)"
    using assms(3,4) by simp
  then have "stdout_for i (run rt u q (before @ ReqError i message # es)) = []"
    by (rule stdout_for_no_end)
  moreover have "run rt u p (ReqError i message # es) =
      (ReqError i message, [Stderr (''HTTP Error: '' @ message @ [CHR 0x0A])]) # run rt u p es"
    using assms(1,2) by (simp add: on_error_def console_error_def)
  ultimately show ?thesis by simp
qed

theorem transport_error_reported_witness:
  "run node server started
     [Line tools_call, ReqError 0 ''connect ECONNREFUSED'', Line prompts_call] =
     [(Line tools_call, [Request (request_for server tools_call)]),
      (ReqError 0 ''connect ECONNREFUSED'',
         [Stderr (''HTTP Error: connect ECONNREFUSED'' @ [CHR 0x0A])]),
      (Line prompts_call, [Request (request_for server prompts_call)])] \<and>
   stdout_for 0 (run node server started
     [Line tools_call, ReqError 0 ''connect ECONNREFUSED'', Line prompts_call]) = []"
proof -
  let ?p = "fst (step node server started (Line tools_call))"
  have a: "running ?p" and b: "0 < length (requests ?p)"
    using sample_not_blank by (simp_all add: on_line_def started_def)
  have c: "ResEnd 0 \<notin> set [Line tools_call]" and d: "ResEnd 0 \<notin> set [Line prompts_call]"
    by simp_all
  have e: "run node server started
      [Line tools_call, ReqError 0 ''connect ECONNREFUSED'', Line prompts_call] =
     (Line tools_call, [Request (request_for server tools_call)]) #
     run node server ?p [ReqError 0 ''connect ECONNREFUSED'', Line prompts_call]"
    using sample_not_blank by (simp add: on_line_def started_def)
  have f: "stdout_for 0 (run node server started
      ([Line tools_call] @ [ReqError 0 ''connect ECONNREFUSED'', Line prompts_call])) = []"
    using transport_error_reported [OF a b c d, of node server "''connect ECONNREFUSED''" started]
    by simp
  have g: "run node server ?p [ReqError 0 ''connect ECONNREFUSED'', Line prompts_call] =
     [(ReqError 0 ''connect ECONNREFUSED'',
         [Stderr (''HTTP Error: connect ECONNREFUSED'' @ [CHR 0x0A])]),
      (Line prompts_call, [Request (request_for server prompts_call)])]"
    using transport_error_reported [OF a b c d, of node server "''connect ECONNREFUSED''" started]
      sample_not_blank
    by (simp add: on_line_def started_def)
  show ?thesis
    using f unfolding e g by simp
qed

section \<open>A request whose id is null\<close>



end
